theory Spec2Isabelle
  imports Main "HOL-Library.Sublist"
begin

section \<open>Configuration model (types/project.ts)\<close>

text \<open>
  The option types are TypeScript unions of string literals; each becomes a datatype with
  one constructor per literal. The optional fields of \<open>ProjectOptions\<close> are
  \<open>undefined\<close> when absent, modelled by \<open>None\<close>.
\<close>

datatype Framework = Express

datatype Database = Mongodb | DbNone

datatype ORM = Mongoose | OrmNone

datatype Language = Typescript | Javascript

datatype ValidationLibrary = Joi | Zod

datatype AuthStrategy = Jwt | Session | Oauth

datatype Feature = Auth | Validation | Swagger | Docker | Tests

record ProjectOptions =
  name :: string
  language :: Language
  framework :: Framework
  database :: Database
  orm :: ORM
  features :: "Feature list"
  validationLibrary :: "ValidationLibrary option"
  authStrategy :: "AuthStrategy option"

text \<open>The literal a union value is rendered as when a template interpolates it.\<close>

fun framework_str :: "Framework \<Rightarrow> string" where
  "framework_str Express = ''express''"

fun database_str :: "Database \<Rightarrow> string" where
  "database_str Mongodb = ''mongodb''"
| "database_str DbNone = ''none''"

subsection \<open>The consistency predicate\<close>

text \<open>
  Modelled from the spec: the source has no \<open>isConsistent\<close> function (the prompts of
  \<open>createProject\<close> are the only place where the combinations are constrained), so the
  predicate follows section 3 of the specification. The name is an identifier string,
  usable as a directory name and as a package identifier: it is not empty, has no path
  separator, and consists of printable, non-blank ASCII characters. The validation library
  is present exactly when the validation feature is selected, the authentication strategy
  exactly when the auth feature is selected, and the ORM is \<open>none\<close> exactly when the
  database is \<open>none\<close> (mongodb pairs with mongoose).
\<close>

definition valid_name_char :: "char \<Rightarrow> bool" where
  "valid_name_char c \<longleftrightarrow>
     0x21 \<le> (of_char c :: nat) \<and> (of_char c :: nat) \<le> 0x7E \<and> c \<noteq> CHR ''/'' \<and> c \<noteq> CHR 0x5C"

definition isConsistent :: "ProjectOptions \<Rightarrow> bool" where
  "isConsistent opts \<longleftrightarrow>
     name opts \<noteq> [] \<and> list_all valid_name_char (name opts) \<and>
     ((validationLibrary opts \<noteq> None) = (Validation \<in> set (features opts))) \<and>
     ((authStrategy opts \<noteq> None) = (Auth \<in> set (features opts))) \<and>
     ((orm opts = OrmNone) = (database opts = DbNone))"

section \<open>Type guards (utils/generator.ts)\<close>

definition isDatabaseMongoDB :: "Database \<Rightarrow> bool" where
  "isDatabaseMongoDB d \<longleftrightarrow> d = Mongodb"

definition isORMMongoose :: "ORM \<Rightarrow> bool" where
  "isORMMongoose r \<longleftrightarrow> r = Mongoose"

definition isFrameworkExpress :: "Framework \<Rightarrow> bool" where
  "isFrameworkExpress f \<longleftrightarrow> f = Express"

definition isDatabaseNone :: "Database \<Rightarrow> bool" where
  "isDatabaseNone d \<longleftrightarrow> d = DbNone"

definition isORMNone :: "ORM \<Rightarrow> bool" where
  "isORMNone r \<longleftrightarrow> r = OrmNone"

section \<open>Dependency manifests\<close>

text \<open>
  A \<open>Record<string, string>\<close> is a JavaScript object: its keys are kept in insertion
  order, and \<open>obj[k] = v\<close> overwrites the value of a key that is already there, in place,
  or appends the key. \<open>assign\<close> is that statement; \<open>assigns\<close> is a run of them, in the
  order in which the source writes them.
\<close>

type_synonym manifest = "(string \<times> string) list"

fun assign :: "string \<Rightarrow> string \<Rightarrow> manifest \<Rightarrow> manifest" where
  "assign k v [] = [(k, v)]"
| "assign k v ((k', v') # m) = (if k' = k then (k', v) # m else (k', v') # assign k v m)"

definition assigns :: "manifest \<Rightarrow> (string \<times> string) list \<Rightarrow> manifest" where
  "assigns m kvs = foldl (\<lambda>acc (k, v). assign k v acc) m kvs"

definition getDependencies :: "ProjectOptions \<Rightarrow> manifest" where
  "getDependencies opts =
    (let d0 = [(''@types/node'', ''latest''), (''dotenv'', ''latest'')];
         d1 = (case framework opts of
                 Express \<Rightarrow> assigns d0 [(''express'', ''latest''), (''cors'', ''latest''),
                                         (''helmet'', ''latest''), (''morgan'', ''latest'')]);
         d2 = (if isDatabaseMongoDB (database opts) then assigns d1 [(''mongodb'', ''latest'')]
               else d1);
         d3 = (if isORMMongoose (orm opts) then assigns d2 [(''mongoose'', ''latest'')] else d2);
         d4 = (if Auth \<in> set (features opts) then
                 (let a0 = assigns d3 [(''passport'', ''latest''), (''express-session'', ''latest'')];
                      a1 = (if authStrategy opts = Some Jwt then
                              assigns a0 [(''passport-jwt'', ''latest''), (''jsonwebtoken'', ''latest'')]
                            else if authStrategy opts = Some Session then
                              assigns a0 [(''connect-mongo'', ''latest''),
                                          (''express-session'', ''latest''),
                                          (''passport-local'', ''latest'')]
                            else if authStrategy opts = Some Oauth then
                              assigns a0 [(''passport-google-oauth20'', ''latest''),
                                          (''passport-github2'', ''latest'')]
                            else a0)
                  in assigns a1 [(''bcrypt'', ''latest'')])
               else d3);
         d5 = (if Validation \<in> set (features opts) then
                 (if validationLibrary opts = Some Joi then assigns d4 [(''joi'', ''latest'')]
                  else if validationLibrary opts = Some Zod then assigns d4 [(''zod'', ''latest'')]
                  else d4)
               else d4);
         d6 = (if Swagger \<in> set (features opts) then
                 assigns d5 [(''swagger-ui-express'', ''latest''), (''swagger-jsdoc'', ''latest'')]
               else d5)
     in d6)"

definition getDevDependencies :: "ProjectOptions \<Rightarrow> manifest" where
  "getDevDependencies opts =
    (let d0 = [];
         d1 = (if language opts = Typescript then
                 assigns d0 [(''typescript'', ''^5.2.2''), (''@types/node'', ''^20.6.3''),
                             (''ts-node'', ''^10.9.1''), (''nodemon'', ''^3.0.1''),
                             (''tsconfig-paths'', ''^4.2.0''), (''rimraf'', ''^5.0.1'')]
               else assigns d0 [(''nodemon'', ''^3.0.1'')]);
         d2 = (if language opts = Typescript then
                 assigns d1 [(''eslint'', ''^8.49.0''),
                             (''@typescript-eslint/eslint-plugin'', ''^6.7.2''),
                             (''@typescript-eslint/parser'', ''^6.7.2''),
                             (''prettier'', ''^3.0.3'')]
               else assigns d1 [(''eslint'', ''^8.49.0''), (''prettier'', ''^3.0.3'')]);
         d3 = (if orm opts = Mongoose then d2 else d2);
         d4 = (if Tests \<in> set (features opts) then
                 (let t0 = assigns d3 [(''jest'', ''^29.7.0'')];
                      t1 = (if language opts = Typescript then
                              assigns t0 [(''ts-jest'', ''^29.1.1''), (''@types/jest'', ''^29.5.5'')]
                            else t0);
                      t2 = (if isFrameworkExpress (framework opts) then
                              (let s0 = assigns t1 [(''supertest'', ''^6.3.3'')]
                               in if language opts = Typescript then
                                    assigns s0 [(''@types/supertest'', ''^2.0.12'')]
                                  else s0)
                            else t1)
                  in t2)
               else d3)
     in d4)"

section \<open>File system effects\<close>

text \<open>
  The generator only ever adds to the file system: it ensures directories and writes
  files. A run is modelled by the list of these operations in the order in which the
  source awaits them; a later write to a path replaces an earlier one. \<open>fs.writeJSON\<close>
  is given an object, not a text, so its operation carries the object. Failures of the
  file system itself (permissions, a full disk) are outside the model: every operation
  is taken to succeed. \<open>console.log\<close> output is left out.
\<close>

datatype json = JString string | JBool bool | JArray "json list" | JObject "(string \<times> json) list"

datatype fs_op = EnsureDir string | WriteFile string string | WriteJSON string json

text \<open>
  \<open>Array.prototype.join\<close>; \<open>path.join\<close> on a normalised first segment (as
  \<open>path.resolve\<close> returns it) and segments without dots joins them with a slash.
\<close>

fun join :: "string \<Rightarrow> string list \<Rightarrow> string" where
  "join sep [] = []"
| "join sep [x] = x"
| "join sep (x # y # ys) = x @ sep @ join sep (y # ys)"

definition nl :: string where
  "nl = [CHR 0x0A]"

definition path_join :: "string list \<Rightarrow> string" where
  "path_join segs = join ''/'' segs"

text \<open>A dependency manifest as the object that is embedded in package.json.\<close>

definition manifest_json :: "manifest \<Rightarrow> json" where
  "manifest_json m = JObject (map (\<lambda>(k, v). (k, JString v)) m)"

section \<open>The generator (utils/generator.ts)\<close>

text \<open>
  A template literal is written as the list of its lines, joined by newlines; an
  interpolation that stands on a line of its own is one element of that list, and may
  itself expand to several lines or to the empty text.
\<close>

definition generateProjectStructure :: "string \<Rightarrow> ProjectOptions \<Rightarrow> fs_op list" where
  "generateProjectStructure projectDir opts =
    (let dirs0 = [''src'', ''src/controllers'', ''src/routes'', ''src/middleware'',
                  ''src/utils'', ''src/config''];
         dirs1 = (if database opts \<noteq> DbNone then
                    (let m = dirs0 @ [''src/models'']
                     in if orm opts \<noteq> OrmNone then
                          m @ [''src/'' @ (if orm opts = Mongoose then ''schemas'' else ''models'')]
                        else m)
                  else dirs0);
         dirs2 = (if Auth \<in> set (features opts) then dirs1 @ [''src/auth''] else dirs1);
         dirs3 = (if Tests \<in> set (features opts) then
                    dirs2 @ [''tests''] @ [''tests/unit''] @ [''tests/integration'']
                  else dirs2)
     in map (\<lambda>dir. EnsureDir (path_join [projectDir, dir])) dirs3)"

definition packageJson :: "ProjectOptions \<Rightarrow> json" where
  "packageJson opts =
    (let isTypeScript = (language opts = Typescript);
         mainFile = (if isTypeScript then ''dist/index.js'' else ''src/index.js'');
         srcExt = (if isTypeScript then ''ts'' else ''js'')
     in JObject
      [(''name'', JString (name opts)),
       (''version'', JString ''1.0.0''),
       (''description'', JString ''A Node.js REST API''),
       (''type'', JString ''module''),
       (''main'', JString mainFile),
       (''scripts'', JObject
          [(''start'', JString (''node '' @ mainFile)),
           (''dev'', JString (if isTypeScript
                then ''ts-node-dev --respawn --transpile-only src/index.'' @ srcExt
                else ''nodemon src/index.'' @ srcExt)),
           (''build'', JString (if isTypeScript then ''tsc''
                else ''echo '' @ [CHR 0x22] @ ''No build step needed for JavaScript'' @ [CHR 0x22])),
           (''test'', JString (if Tests \<in> set (features opts) then ''jest''
                else ''echo '' @ [CHR 0x22] @ ''No tests configured'' @ [CHR 0x22]))]),
       (''dependencies'', manifest_json (getDependencies opts)),
       (''devDependencies'', manifest_json (getDevDependencies opts))])"

definition generatePackageJson :: "string \<Rightarrow> ProjectOptions \<Rightarrow> fs_op list" where
  "generatePackageJson projectDir opts =
     [WriteJSON (path_join [projectDir, ''package.json'']) (packageJson opts)]"

definition envContent :: "ProjectOptions \<Rightarrow> string list" where
  "envContent opts =
    (let e0 = [''# Server Configuration'', ''PORT=3000'', ''NODE_ENV=development'', ''''];
         e1 = (if database opts \<noteq> DbNone then
                 e0 @ [''# Database Configuration'']
                    @ (case database opts of
                         Mongodb \<Rightarrow> [''MONGODB_URI=mongodb://localhost:27017/'' @ name opts]
                       | DbNone \<Rightarrow> [])
                    @ ['''']
               else e0);
         e2 = (if Auth \<in> set (features opts) then
                 e1 @ [''# Authentication'', ''JWT_SECRET=your-secret-key'', ''JWT_EXPIRES_IN=1d'']
                    @ (if authStrategy opts = Some Session \<or> authStrategy opts = Some Oauth
                       then [''SESSION_SECRET=your-session-secret''] else [])
                    @ (if authStrategy opts = Some Oauth
                       then [''# OAuth Configuration'',
                             ''GOOGLE_CLIENT_ID=your-google-client-id'',
                             ''GOOGLE_CLIENT_SECRET=your-google-client-secret'',
                             ''GITHUB_CLIENT_ID=your-github-client-id'',
                             ''GITHUB_CLIENT_SECRET=your-github-client-secret'']
                       else [])
                    @ ['''']
               else e1)
     in e2)"

definition generateEnvFile :: "string \<Rightarrow> ProjectOptions \<Rightarrow> fs_op list" where
  "generateEnvFile projectDir opts =
     [WriteFile (path_join [projectDir, ''.env.example'']) (join nl (envContent opts)),
      WriteFile (path_join [projectDir, ''.env'']) (join nl (envContent opts)),
      WriteFile (path_join [projectDir, ''.gitignore''])
        (join nl [''node_modules'', ''dist'', ''.env'', ''''])]"

definition tsconfig :: json where
  "tsconfig = JObject
     [(''compilerOptions'', JObject
         [(''target'', JString ''ES2020''),
          (''module'', JString ''NodeNext''),
          (''moduleResolution'', JString ''NodeNext''),
          (''esModuleInterop'', JBool True),
          (''strict'', JBool True),
          (''outDir'', JString ''./dist''),
          (''rootDir'', JString ''./src''),
          (''resolveJsonModule'', JBool True),
          (''skipLibCheck'', JBool True),
          (''forceConsistentCasingInFileNames'', JBool True)]),
      (''include'', JArray [JString ''src/**/*'']),
      (''exclude'', JArray [JString ''node_modules'', JString ''**/*.test.ts'', JString ''dist''])]"

definition readmeContent :: "ProjectOptions \<Rightarrow> string" where
  "readmeContent opts = join nl
     [''# '' @ name opts,
      '''',
      ''A Node.js REST API project built with '' @ framework_str (framework opts)
          @ (if database opts \<noteq> DbNone then '' and '' @ database_str (database opts) else '''') @ ''.'',
      '''',
      ''## Getting Started'',
      '''',
      ''### Prerequisites'',
      '''',
      ''- Node.js (v16 or higher)'',
      ''- npm or yarn'',
      (if database opts \<noteq> DbNone then ''- '' @ database_str (database opts) @ '' database'' else ''''),
      '''',
      ''### Installation'',
      '''',
      ''1. Clone the repository'',
      ''2. Install dependencies'',
      '''',
      ''```bash'',
      ''npm install'',
      ''```'',
      '''',
      ''3. Set up environment variables'',
      ''   - Copy `.env.example` to `.env` and update the values'',
      '''',
      ''4. Start the development server'',
      '''',
      ''```bash'',
      ''npm run dev'',
      ''```'',
      '''',
      ''## Scripts'',
      '''',
      ''- `npm run dev`: Start development server'',
      ''- `npm run build`: Build for production'',
      ''- `npm start`: Start production server'',
      (if Tests \<in> set (features opts) then ''- `npm test`: Run tests'' else ''''),
      '''',
      ''## Project Structure'',
      '''',
      ''```'',
      ''src/'',
      [CHR 0xE2, CHR 0x94, CHR 0x9C, CHR 0xE2, CHR 0x94, CHR 0x80, CHR 0xE2, CHR 0x94, CHR 0x80] @ '' controllers/    # Request handlers'',
      [CHR 0xE2, CHR 0x94, CHR 0x9C, CHR 0xE2, CHR 0x94, CHR 0x80, CHR 0xE2, CHR 0x94, CHR 0x80] @ '' routes/         # API routes'',
      [CHR 0xE2, CHR 0x94, CHR 0x9C, CHR 0xE2, CHR 0x94, CHR 0x80, CHR 0xE2, CHR 0x94, CHR 0x80] @ '' middleware/     # Express/Fastify/Koa middleware'',
      [CHR 0xE2, CHR 0x94, CHR 0x9C, CHR 0xE2, CHR 0x94, CHR 0x80, CHR 0xE2, CHR 0x94, CHR 0x80] @ '' models/         # Data models'',
      [CHR 0xE2, CHR 0x94, CHR 0x9C, CHR 0xE2, CHR 0x94, CHR 0x80, CHR 0xE2, CHR 0x94, CHR 0x80] @ '' config/         # Configuration files'',
      [CHR 0xE2, CHR 0x94, CHR 0x94, CHR 0xE2, CHR 0x94, CHR 0x80, CHR 0xE2, CHR 0x94, CHR 0x80] @ '' utils/          # Utility functions'',
      ''```'',
      '''']"

definition indexContent :: "ProjectOptions \<Rightarrow> string" where
  "indexContent opts =
    (let isTypeScript = (language opts = Typescript);
         fileExtension = (if isTypeScript then ''.ts'' else ''.js'');
         typeDefs = (if isTypeScript then '': any'' else '''')
     in join nl
     [''import express from 'express';'',
      ''import cors from 'cors';'',
      ''import helmet from 'helmet';'',
      ''import morgan from 'morgan';'',
      ''import 'dotenv/config';'',
      (if database opts = Mongodb then ''import mongoose from 'mongoose';'' else ''''),
      (if Auth \<in> set (features opts) then ''import passport from 'passport';'' else ''''),
      (if Auth \<in> set (features opts) \<and> authStrategy opts = Some Session
       then ''import session from 'express-session';'' else ''''),
      (if Auth \<in> set (features opts) \<and> authStrategy opts = Some Session \<and>
          database opts = Mongodb
       then ''import MongoStore from 'connect-mongo';'' else ''''),
      '''',
      ''const app = express();'',
      ''const port = process.env.PORT || 3000;'',
      '''',
      ''// Connect to MongoDB'',
      (if database opts = Mongodb then join nl
         ['''',
          ''mongoose.connect(process.env.MONGODB_URI || 'mongodb://localhost:27017/'' @ name opts @ [CHR 0x27] @ '')'',
          ''  .then(() => console.log('Connected to MongoDB'))'',
          ''  .catch(err => console.error('MongoDB connection error:', err));'',
          '''']
       else ''''),
      '''',
      ''// Middleware'',
      ''app.use(cors());'',
      ''app.use(helmet());'',
      ''app.use(morgan('dev'));'',
      ''app.use(express.json());'',
      '''',
      (if Auth \<in> set (features opts) \<and> authStrategy opts = Some Session then
         join nl
         (['''',
           ''// Session configuration'',
           ''app.use(session({'',
           ''  secret: process.env.SESSION_SECRET || 'your-secret-key','',
           ''  resave: false,'',
           ''  saveUninitialized: false,'',
           ''  '' @ (if database opts = Mongodb then join nl
              ['''',
               ''  store: MongoStore.create({'',
               ''    mongoUrl: process.env.MONGODB_URI || 'mongodb://localhost:27017/'' @ name opts @ [CHR 0x27],
               ''  }),'']
             else ''''),
           ''  cookie: {'',
           ''    maxAge: 1000 * 60 * 60 * 24 // 1 day'',
           ''  }'',
           ''}));'',
           '''',
           ''// Initialize Passport'',
           ''app.use(passport.initialize());'',
           ''app.use(passport.session());'',
           ''''])
       else if Auth \<in> set (features opts) then
         join nl
         ['''',
          ''// Initialize Passport'',
          ''app.use(passport.initialize());'',
          '''']
       else ''''),
      '''',
      (if Swagger \<in> set (features opts) then join nl
         ['''',
          ''// Swagger documentation'',
          ''import swaggerJSDoc from 'swagger-jsdoc';'',
          ''import swaggerUi from 'swagger-ui-express';'',
          '''',
          ''const swaggerOptions = {'',
          ''  definition: {'',
          ''    openapi: '3.0.0','',
          ''    info: {'',
          ''      title: '' @ [CHR 0x27] @ name opts @ '' API','',
          ''      version: '1.0.0','',
          ''      description: 'API documentation for '' @ name opts @ [CHR 0x27] @ '','',
          ''    },'',
          ''    servers: ['',
          ''      {'',
          ''        url: 'http://localhost:' + port,'',
          ''        description: 'Development server','',
          ''      },'',
          ''    ],'',
          ''  },'',
          ''  apis: ['./src/routes/*.'' @ fileExtension @ [CHR 0x27] @ ''],'',
          ''};'',
          '''',
          ''const swaggerSpec = swaggerJSDoc(swaggerOptions);'',
          ''app.use('/api-docs', swaggerUi.serve, swaggerUi.setup(swaggerSpec));'',
          '''']
       else ''''),
      '''',
      ''// Routes'',
      ''app.get('/', (req, res'' @ typeDefs @ '') => {'',
      ''  res.json({ message: 'Welcome to '' @ name opts @ '' API' });'',
      ''});'',
      '''',
      ''// Start server'',
      ''app.listen(port, () => {'',
      ''  console.log(`Server running on port ${port}`);'',
      ''});'',
      ''''])"

definition generateIndexFile :: "string \<Rightarrow> ProjectOptions \<Rightarrow> fs_op list" where
  "generateIndexFile projectDir opts =
    (let isTypeScript = (language opts = Typescript);
         fileExtension = (if isTypeScript then ''.ts'' else ''.js'')
     in [WriteFile (path_join [projectDir, ''src'', ''index'' @ fileExtension])
           (indexContent opts)])"

definition controllerContent :: string where
  "controllerContent = join nl
     [''/**'',
      '' * Example controller'',
      '' */'',
      ''export const getHello = async (req, res) => {'',
      ''  return res.json({ message: 'Hello World!' });'',
      ''};'',
      '''',
      ''export const createItem = async (req, res) => {'',
      ''  const item = req.body;'',
      ''  // Implementation would depend on the database and ORM'',
      ''  return res.status(201).json({ message: 'Item created', item });'',
      ''};'',
      '''']"

definition routeContent :: "ProjectOptions \<Rightarrow> string" where
  "routeContent opts =
    (if isFrameworkExpress (framework opts) then join nl
       [''import { Router } from 'express';'',
        ''import { getHello, createItem } from '../controllers/example.controller.js';'',
        '''',
        ''const router = Router();'',
        '''',
        ''router.get('/hello', getHello);'',
        ''router.post('/items', createItem);'',
        '''',
        ''export default router;'',
        '''']
     else '''')"

definition modelContent :: "ProjectOptions \<Rightarrow> string" where
  "modelContent opts =
    (if isORMMongoose (orm opts) then join nl
       [''import mongoose from 'mongoose';'',
        '''',
        ''const exampleSchema = new mongoose.Schema({'',
        ''  name: {'',
        ''    type: String,'',
        ''    required: true'',
        ''  },'',
        ''  description: {'',
        ''    type: String'',
        ''  },'',
        ''  createdAt: {'',
        ''    type: Date,'',
        ''    default: Date.now'',
        ''  }'',
        ''});'',
        '''',
        ''export const Example = mongoose.model('Example', exampleSchema);'',
        '''']
     else join nl
       [''// Example model file'',
        ''// Implementation depends on your ORM and database choice'',
        '''',
        ''export interface Example {'',
        ''  id?: number;'',
        ''  name: string;'',
        ''  description?: string;'',
        ''  createdAt?: Date;'',
        ''}'',
        '''',
        ''// Example repository functions'',
        ''export const findAll = async () => {'',
        ''  // Implementation depends on your database and ORM choice'',
        ''  return [];'',
        ''};'',
        '''',
        ''export const findById = async (id: number) => {'',
        ''  // Implementation depends on your database and ORM choice'',
        ''  return null;'',
        ''};'',
        '''',
        ''export const create = async (data: Omit<Example, 'id' | 'createdAt'>) => {'',
        ''  // Implementation depends on your database and ORM choice'',
        ''  return { ...data, id: 1, createdAt: new Date() };'',
        ''};'',
        ''''])"

definition generateBasicFiles :: "string \<Rightarrow> ProjectOptions \<Rightarrow> fs_op list" where
  "generateBasicFiles projectDir opts =
     [WriteFile (path_join [projectDir, ''src'', ''controllers'', ''example.controller.ts''])
        controllerContent,
      WriteFile (path_join [projectDir, ''src'', ''routes'', ''example.routes.ts''])
        (routeContent opts)]
     @ (if \<not> isDatabaseNone (database opts) then
          [WriteFile (path_join [projectDir, ''src'', ''models'', ''example.model.ts''])
             (modelContent opts)]
        else [])"

definition copyTemplateFiles :: "string \<Rightarrow> ProjectOptions \<Rightarrow> fs_op list" where
  "copyTemplateFiles projectDir opts =
     [WriteJSON (path_join [projectDir, ''tsconfig.json'']) tsconfig,
      WriteFile (path_join [projectDir, ''README.md'']) (readmeContent opts)]
     @ generateIndexFile projectDir opts
     @ generateBasicFiles projectDir opts"

definition generateProject :: "string \<Rightarrow> ProjectOptions \<Rightarrow> fs_op list" where
  "generateProject projectDir opts =
     [EnsureDir projectDir]
     @ generateProjectStructure projectDir opts
     @ generatePackageJson projectDir opts
     @ generateEnvFile projectDir opts
     @ copyTemplateFiles projectDir opts"

definition generateDatabaseUrl :: "ProjectOptions \<Rightarrow> string" where
  "generateDatabaseUrl opts =
    (if isDatabaseNone (database opts) then ''''
     else if isDatabaseMongoDB (database opts) then ''mongodb://localhost:27017/'' @ name opts
     else '''')"

section \<open>Reading the generated artifacts\<close>

text \<open>The paths that a run writes, and the directories it ensures, in order.\<close>

fun written_path :: "fs_op \<Rightarrow> string option" where
  "written_path (EnsureDir p) = None"
| "written_path (WriteFile p c) = Some p"
| "written_path (WriteJSON p j) = Some p"

fun ensured_dir :: "fs_op \<Rightarrow> string option" where
  "ensured_dir (EnsureDir p) = Some p"
| "ensured_dir (WriteFile p c) = None"
| "ensured_dir (WriteJSON p j) = None"

definition written_paths :: "fs_op list \<Rightarrow> string list" where
  "written_paths ops = List.map_filter written_path ops"

definition ensured_dirs :: "fs_op list \<Rightarrow> string list" where
  "ensured_dirs ops = List.map_filter ensured_dir ops"

text \<open>The lines of a text file: the pieces between its newline characters.\<close>

fun split_lines :: "string \<Rightarrow> string list" where
  "split_lines [] = [[]]"
| "split_lines (c # cs) =
     (if c = CHR 0x0A then [] # split_lines cs
      else (case split_lines cs of [] \<Rightarrow> [[c]] | l # ls \<Rightarrow> (c # l) # ls))"

text \<open>
  A line of an environment file defines a variable when it is not a comment and has an
  equals sign; the variable is what stands before the first one, the value what follows.
\<close>

definition env_var_of_line :: "string \<Rightarrow> string option" where
  "env_var_of_line l =
     (if l = [] \<or> hd l = CHR ''#'' \<or> CHR ''='' \<notin> set l then None
      else Some (takeWhile (\<lambda>c. c \<noteq> CHR ''='') l))"

definition env_vars :: "string \<Rightarrow> string set" where
  "env_vars content = set (List.map_filter env_var_of_line (split_lines content))"

definition env_value :: "string \<Rightarrow> string \<Rightarrow> string option" where
  "env_value v content =
     (case find (prefix (v @ ''='')) (split_lines content) of
        None \<Rightarrow> None
      | Some l \<Rightarrow> Some (drop (length v + 1) l))"

text \<open>
  The fallback connection string of the entry point: on the first line that starts with
  the call \<open>mongoose.connect(process.env.MONGODB_URI || '\<close>, the text up to the closing
  quote and parenthesis that end the line.
\<close>

definition connect_marker :: string where
  "connect_marker = ''mongoose.connect(process.env.MONGODB_URI || '' @ [CHR 0x27]"

definition connect_fallback :: "string \<Rightarrow> string option" where
  "connect_fallback content =
     (case find (prefix connect_marker) (split_lines content) of
        None \<Rightarrow> None
      | Some l \<Rightarrow>
          (let r = drop (length connect_marker) l
           in if suffix ([CHR 0x27] @ '')'') r then Some (take (length r - 2) r) else None))"

text \<open>Field access on a JSON object, and along a path of fields.\<close>

fun json_field :: "string \<Rightarrow> json \<Rightarrow> json option" where
  "json_field k (JObject kvs) = map_of kvs k"
| "json_field k (JString s) = None"
| "json_field k (JBool b) = None"
| "json_field k (JArray js) = None"

fun json_path :: "string list \<Rightarrow> json \<Rightarrow> json option" where
  "json_path [] j = Some j"
| "json_path (k # ks) j = (case json_field k j of None \<Rightarrow> None | Some j' \<Rightarrow> json_path ks j')"

section \<open>Example configurations\<close>

definition demo_ts :: ProjectOptions where
  "demo_ts = \<lparr>name = ''demo'', language = Typescript, framework = Express,
     database = Mongodb, orm = Mongoose, features = [],
     validationLibrary = None, authStrategy = None\<rparr>"

definition demo_js :: ProjectOptions where
  "demo_js = \<lparr>name = ''demo'', language = Javascript, framework = Express,
     database = Mongodb, orm = Mongoose, features = [],
     validationLibrary = None, authStrategy = None\<rparr>"

definition demo_none :: ProjectOptions where
  "demo_none = \<lparr>name = ''demo'', language = Typescript, framework = Express,
     database = DbNone, orm = OrmNone, features = [],
     validationLibrary = None, authStrategy = None\<rparr>"

definition demo_session_none :: ProjectOptions where
  "demo_session_none = \<lparr>name = ''demo'', language = Typescript, framework = Express,
     database = DbNone, orm = OrmNone, features = [Auth],
     validationLibrary = None, authStrategy = Some Session\<rparr>"

definition demo_oauth :: ProjectOptions where
  "demo_oauth = \<lparr>name = ''demo'', language = Typescript, framework = Express,
     database = Mongodb, orm = Mongoose, features = [Auth, Tests],
     validationLibrary = None, authStrategy = Some Oauth\<rparr>"

definition bad_orm :: ProjectOptions where
  "bad_orm = \<lparr>name = ''demo'', language = Typescript, framework = Express,
     database = DbNone, orm = Mongoose, features = [],
     validationLibrary = None, authStrategy = None\<rparr>"

definition bad_auth :: ProjectOptions where
  "bad_auth = \<lparr>name = ''demo'', language = Typescript, framework = Express,
     database = Mongodb, orm = Mongoose, features = [Auth],
     validationLibrary = None, authStrategy = None\<rparr>"

section \<open>Facts about manifests\<close>

lemma assign_not_Nil: "assign k v m \<noteq> []"
  by (cases m) (auto split: if_splits)

lemma keys_assign: "fst ` set (assign k v m) = insert k (fst ` set m)"
  by (induction m) force+

lemma distinct_assign: "distinct (map fst (assign k v m)) = distinct (map fst m)"
proof (induction m)
  case Nil
  show ?case by simp
next
  case (Cons p m)
  obtain k' v' where p: "p = (k', v')" by (cases p)
  have "k' \<in> fst ` set (assign k v m) \<longleftrightarrow> k' = k \<or> k' \<in> fst ` set m"
    by (simp add: keys_assign)
  with Cons p show ?case by auto
qed

lemma map_of_assign: "map_of (assign k v m) = (map_of m)(k \<mapsto> v)"
  by (induction m) (auto simp: fun_eq_iff)

lemma assigns_Nil: "assigns m [] = m"
  by (simp add: assigns_def)

lemma assigns_Cons: "assigns m ((k, v) # kvs) = assigns (assign k v m) kvs"
  by (simp add: assigns_def)

lemma assigns_not_Nil: "m \<noteq> [] \<Longrightarrow> assigns m kvs \<noteq> []"
proof (induction kvs arbitrary: m)
  case Nil
  then show ?case by (simp add: assigns_Nil)
next
  case (Cons p kvs)
  obtain k v where "p = (k, v)" by (cases p)
  with Cons.IH [of "assign k v m"] show ?case
    by (simp add: assigns_Cons assign_not_Nil)
qed

lemma keys_assigns: "fst ` set (assigns m kvs) = fst ` set m \<union> fst ` set kvs"
proof (induction kvs arbitrary: m)
  case Nil
  show ?case by (simp add: assigns_Nil)
next
  case (Cons p kvs)
  obtain k v where p: "p = (k, v)" by (cases p)
  show ?case unfolding p assigns_Cons Cons.IH
    by (simp add: keys_assign)
qed

lemma distinct_assigns: "distinct (map fst (assigns m kvs)) = distinct (map fst m)"
proof (induction kvs arbitrary: m)
  case Nil
  show ?case by (simp add: assigns_Nil)
next
  case (Cons p kvs)
  obtain k v where p: "p = (k, v)" by (cases p)
  show ?case unfolding p assigns_Cons Cons.IH
    by (rule distinct_assign)
qed

text \<open>
  The runtime resolver block by block: the value of \<open>dependencies\<close> after the framework,
  database, ORM, authentication, validation and swagger blocks of the source.
\<close>

lemma getDependencies_stages:
  obtains d1 d2 d3 a0 a1 d4 d5 where
    "d1 = assigns [(''@types/node'', ''latest''), (''dotenv'', ''latest'')]
            [(''express'', ''latest''), (''cors'', ''latest''),
             (''helmet'', ''latest''), (''morgan'', ''latest'')]"
    "d2 = (if database opts = Mongodb then assigns d1 [(''mongodb'', ''latest'')] else d1)"
    "d3 = (if orm opts = Mongoose then assigns d2 [(''mongoose'', ''latest'')] else d2)"
    "a0 = assigns d3 [(''passport'', ''latest''), (''express-session'', ''latest'')]"
    "a1 = (if authStrategy opts = Some Jwt then
             assigns a0 [(''passport-jwt'', ''latest''), (''jsonwebtoken'', ''latest'')]
           else if authStrategy opts = Some Session then
             assigns a0 [(''connect-mongo'', ''latest''), (''express-session'', ''latest''),
                         (''passport-local'', ''latest'')]
           else if authStrategy opts = Some Oauth then
             assigns a0 [(''passport-google-oauth20'', ''latest''),
                         (''passport-github2'', ''latest'')]
           else a0)"
    "d4 = (if Auth \<in> set (features opts) then assigns a1 [(''bcrypt'', ''latest'')] else d3)"
    "d5 = (if Validation \<in> set (features opts) then
             (if validationLibrary opts = Some Joi then assigns d4 [(''joi'', ''latest'')]
              else if validationLibrary opts = Some Zod then assigns d4 [(''zod'', ''latest'')]
              else d4)
           else d4)"
    "getDependencies opts =
       (if Swagger \<in> set (features opts) then
          assigns d5 [(''swagger-ui-express'', ''latest''), (''swagger-jsdoc'', ''latest'')]
        else d5)"
proof -
  have fw: "framework opts = Express" by (cases "framework opts")
  show thesis
    by (rule that [OF refl refl refl refl refl refl refl])
      (simp only: getDependencies_def Let_def fw Framework.case isDatabaseMongoDB_def
        isORMMongoose_def)
qed

lemma getDependencies_invariant:
  assumes base: "P [(''@types/node'', ''latest''), (''dotenv'', ''latest'')]"
    and step: "\<And>m kvs. P m \<Longrightarrow> P (assigns m kvs)"
  shows "P (getDependencies opts)"
proof -
  obtain d1 d2 d3 a0 a1 d4 d5 where
    d1: "d1 = assigns [(''@types/node'', ''latest''), (''dotenv'', ''latest'')]
            [(''express'', ''latest''), (''cors'', ''latest''),
             (''helmet'', ''latest''), (''morgan'', ''latest'')]"
    and d2: "d2 = (if database opts = Mongodb then assigns d1 [(''mongodb'', ''latest'')] else d1)"
    and d3: "d3 = (if orm opts = Mongoose then assigns d2 [(''mongoose'', ''latest'')] else d2)"
    and a0: "a0 = assigns d3 [(''passport'', ''latest''), (''express-session'', ''latest'')]"
    and a1: "a1 = (if authStrategy opts = Some Jwt then
             assigns a0 [(''passport-jwt'', ''latest''), (''jsonwebtoken'', ''latest'')]
           else if authStrategy opts = Some Session then
             assigns a0 [(''connect-mongo'', ''latest''), (''express-session'', ''latest''),
                         (''passport-local'', ''latest'')]
           else if authStrategy opts = Some Oauth then
             assigns a0 [(''passport-google-oauth20'', ''latest''),
                         (''passport-github2'', ''latest'')]
           else a0)"
    and d4: "d4 = (if Auth \<in> set (features opts) then assigns a1 [(''bcrypt'', ''latest'')] else d3)"
    and d5: "d5 = (if Validation \<in> set (features opts) then
             (if validationLibrary opts = Some Joi then assigns d4 [(''joi'', ''latest'')]
              else if validationLibrary opts = Some Zod then assigns d4 [(''zod'', ''latest'')]
              else d4)
           else d4)"
    and d6: "getDependencies opts =
       (if Swagger \<in> set (features opts) then
          assigns d5 [(''swagger-ui-express'', ''latest''), (''swagger-jsdoc'', ''latest'')]
        else d5)"
    by (rule getDependencies_stages)
  have "P d1" unfolding d1 by (rule step [OF base])
  then have "P d2" unfolding d2 by (simp add: step)
  then have p3: "P d3" unfolding d3 by (simp add: step)
  then have "P a0" unfolding a0 by (simp add: step)
  then have "P a1" unfolding a1 by (simp add: step)
  with p3 have "P d4" unfolding d4 by (simp add: step)
  then have "P d5" unfolding d5 by (simp add: step)
  then show ?thesis unfolding d6 by (simp add: step)
qed

lemma getDependencies_not_Nil: "getDependencies opts \<noteq> []"
  by (rule getDependencies_invariant) (simp_all add: assigns_not_Nil)

lemma distinct_getDependencies: "distinct (map fst (getDependencies opts))"
  by (rule getDependencies_invariant) (simp_all add: distinct_assigns)

lemma keys_getDependencies:
  "fst ` set (getDependencies opts) =
     {''@types/node'', ''dotenv'', ''express'', ''cors'', ''helmet'', ''morgan''}
     \<union> (if database opts = Mongodb then {''mongodb''} else {})
     \<union> (if orm opts = Mongoose then {''mongoose''} else {})
     \<union> (if Auth \<in> set (features opts) then
          {''passport'', ''express-session'', ''bcrypt''}
          \<union> (if authStrategy opts = Some Jwt then {''passport-jwt'', ''jsonwebtoken''}
             else if authStrategy opts = Some Session then {''connect-mongo'', ''passport-local''}
             else if authStrategy opts = Some Oauth
               then {''passport-google-oauth20'', ''passport-github2''}
             else {})
        else {})
     \<union> (if Validation \<in> set (features opts) then
          (if validationLibrary opts = Some Joi then {''joi''}
           else if validationLibrary opts = Some Zod then {''zod''} else {})
        else {})
     \<union> (if Swagger \<in> set (features opts) then {''swagger-ui-express'', ''swagger-jsdoc''}
        else {})"
proof -
  obtain d1 d2 d3 a0 a1 d4 d5 where
    d1: "d1 = assigns [(''@types/node'', ''latest''), (''dotenv'', ''latest'')]
            [(''express'', ''latest''), (''cors'', ''latest''),
             (''helmet'', ''latest''), (''morgan'', ''latest'')]"
    and d2: "d2 = (if database opts = Mongodb then assigns d1 [(''mongodb'', ''latest'')] else d1)"
    and d3: "d3 = (if orm opts = Mongoose then assigns d2 [(''mongoose'', ''latest'')] else d2)"
    and a0: "a0 = assigns d3 [(''passport'', ''latest''), (''express-session'', ''latest'')]"
    and a1: "a1 = (if authStrategy opts = Some Jwt then
             assigns a0 [(''passport-jwt'', ''latest''), (''jsonwebtoken'', ''latest'')]
           else if authStrategy opts = Some Session then
             assigns a0 [(''connect-mongo'', ''latest''), (''express-session'', ''latest''),
                         (''passport-local'', ''latest'')]
           else if authStrategy opts = Some Oauth then
             assigns a0 [(''passport-google-oauth20'', ''latest''),
                         (''passport-github2'', ''latest'')]
           else a0)"
    and d4: "d4 = (if Auth \<in> set (features opts) then assigns a1 [(''bcrypt'', ''latest'')] else d3)"
    and d5: "d5 = (if Validation \<in> set (features opts) then
             (if validationLibrary opts = Some Joi then assigns d4 [(''joi'', ''latest'')]
              else if validationLibrary opts = Some Zod then assigns d4 [(''zod'', ''latest'')]
              else d4)
           else d4)"
    and d6: "getDependencies opts =
       (if Swagger \<in> set (features opts) then
          assigns d5 [(''swagger-ui-express'', ''latest''), (''swagger-jsdoc'', ''latest'')]
        else d5)"
    by (rule getDependencies_stages)
  let ?K = "\<lambda>m::manifest. fst ` set m"
  let ?B = "{''@types/node'', ''dotenv'', ''express'', ''cors'', ''helmet'', ''morgan''}"
  let ?D = "if database opts = Mongodb then {''mongodb''} else {}"
  let ?O = "if orm opts = Mongoose then {''mongoose''} else {}"
  let ?S = "if authStrategy opts = Some Jwt then {''passport-jwt'', ''jsonwebtoken''}
            else if authStrategy opts = Some Session then {''connect-mongo'', ''passport-local''}
            else if authStrategy opts = Some Oauth
              then {''passport-google-oauth20'', ''passport-github2''}
            else {}"
  let ?A = "if Auth \<in> set (features opts)
            then {''passport'', ''express-session'', ''bcrypt''} \<union> ?S else {}"
  let ?V = "if Validation \<in> set (features opts) then
              (if validationLibrary opts = Some Joi then {''joi''}
               else if validationLibrary opts = Some Zod then {''zod''} else {})
            else {}"
  let ?W = "if Swagger \<in> set (features opts)
            then {''swagger-ui-express'', ''swagger-jsdoc''} else {}"
  have k1: "?K d1 = ?B" unfolding d1 keys_assigns by auto
  have k2: "?K d2 = ?K d1 \<union> ?D" unfolding d2 by (simp add: keys_assigns)
  have k3: "?K d3 = ?K d2 \<union> ?O" unfolding d3 by (simp add: keys_assigns)
  have ka0: "?K a0 = ?K d3 \<union> {''passport'', ''express-session''}"
    unfolding a0 keys_assigns by auto
  have ka1: "?K a1 = ?K a0 \<union> ?S" unfolding a1 using ka0 by (auto simp: keys_assigns)
  have k4: "?K d4 = ?K d3 \<union> ?A"
  proof (cases "Auth \<in> set (features opts)")
    case True
    then have "?K d4 = ?K a1 \<union> {''bcrypt''}" unfolding d4 by (simp add: keys_assigns)
    also have "\<dots> = ?K d3 \<union> ({''passport'', ''express-session'', ''bcrypt''} \<union> ?S)"
      unfolding ka1 ka0 by blast
    finally show ?thesis using True by simp
  next
    case False
    then show ?thesis unfolding d4 by simp
  qed
  have k5: "?K d5 = ?K d4 \<union> ?V" unfolding d5 by (simp add: keys_assigns)
  have k6: "?K (getDependencies opts) = ?K d5 \<union> ?W" unfolding d6 by (simp add: keys_assigns)
  show ?thesis unfolding k6 k5 k4 k3 k2 k1 by (rule refl)
qed

lemma getDevDependencies_ts:
  assumes "language opts = Typescript"
  shows "getDevDependencies opts =
     [(''typescript'', ''^5.2.2''), (''@types/node'', ''^20.6.3''), (''ts-node'', ''^10.9.1''),
      (''nodemon'', ''^3.0.1''), (''tsconfig-paths'', ''^4.2.0''), (''rimraf'', ''^5.0.1''),
      (''eslint'', ''^8.49.0''), (''@typescript-eslint/eslint-plugin'', ''^6.7.2''),
      (''@typescript-eslint/parser'', ''^6.7.2''), (''prettier'', ''^3.0.3'')]
     @ (if Tests \<in> set (features opts)
        then [(''jest'', ''^29.7.0''), (''ts-jest'', ''^29.1.1''), (''@types/jest'', ''^29.5.5''),
              (''supertest'', ''^6.3.3''), (''@types/supertest'', ''^2.0.12'')]
        else [])"
proof -
  have fw: "isFrameworkExpress (framework opts)"
    by (cases "framework opts") (simp add: isFrameworkExpress_def)
  show ?thesis
    unfolding getDevDependencies_def Let_def
    by (simp add: assms fw assigns_def)
qed

lemma getDevDependencies_js:
  assumes "language opts = Javascript"
  shows "getDevDependencies opts =
     [(''nodemon'', ''^3.0.1''), (''eslint'', ''^8.49.0''), (''prettier'', ''^3.0.3'')]
     @ (if Tests \<in> set (features opts)
        then [(''jest'', ''^29.7.0''), (''supertest'', ''^6.3.3'')]
        else [])"
proof -
  have fw: "isFrameworkExpress (framework opts)"
    by (cases "framework opts") (simp add: isFrameworkExpress_def)
  show ?thesis
    unfolding getDevDependencies_def Let_def
    by (simp add: assms fw assigns_def)
qed

lemma distinct_getDevDependencies: "distinct (map fst (getDevDependencies opts))"
  unfolding getDevDependencies_def Let_def
  by (simp add: distinct_assigns)


section \<open>Facts about paths and operations\<close>

lemma path_join2: "path_join [d, a] = d @ ''/'' @ a"
  by (simp add: path_join_def)

lemma path_join3: "path_join [d, a, b] = d @ ''/'' @ a @ ''/'' @ b"
  by (simp add: path_join_def)

lemma path_join4: "path_join [d, a, b, c] = d @ ''/'' @ a @ ''/'' @ b @ ''/'' @ c"
  by (simp add: path_join_def)

lemma written_paths_Nil: "written_paths [] = []"
  by (simp add: written_paths_def map_filter_simps)

lemma written_paths_Cons:
  "written_paths (x # ops) =
     (case written_path x of None \<Rightarrow> written_paths ops | Some p \<Rightarrow> p # written_paths ops)"
  unfolding written_paths_def by (simp add: map_filter_simps)

lemma written_paths_append: "written_paths (xs @ ys) = written_paths xs @ written_paths ys"
  by (simp add: written_paths_def map_filter_def)

lemma written_paths_map_EnsureDir: "written_paths (map (\<lambda>x. EnsureDir (f x)) xs) = []"
  by (induction xs) (simp_all add: written_paths_Nil written_paths_Cons)

lemma ensured_dirs_Nil: "ensured_dirs [] = []"
  by (simp add: ensured_dirs_def map_filter_simps)

lemma ensured_dirs_Cons:
  "ensured_dirs (x # ops) =
     (case ensured_dir x of None \<Rightarrow> ensured_dirs ops | Some p \<Rightarrow> p # ensured_dirs ops)"
  unfolding ensured_dirs_def by (simp add: map_filter_simps)

lemma ensured_dirs_append: "ensured_dirs (xs @ ys) = ensured_dirs xs @ ensured_dirs ys"
  by (simp add: ensured_dirs_def map_filter_def)

lemma ensured_dirs_map_EnsureDir: "ensured_dirs (map (\<lambda>x. EnsureDir (f x)) xs) = map f xs"
  by (induction xs) (simp_all add: ensured_dirs_Nil ensured_dirs_Cons)

lemma written_paths_generateBasicFiles:
  "written_paths (generateBasicFiles d opts) =
     [d @ ''/src/controllers/example.controller.ts'', d @ ''/src/routes/example.routes.ts'']
     @ (if database opts \<noteq> DbNone then [d @ ''/src/models/example.model.ts''] else [])"
  by (simp add: generateBasicFiles_def written_paths_append written_paths_Cons
      written_paths_Nil path_join4 isDatabaseNone_def)

lemma written_paths_generateIndexFile:
  "written_paths (generateIndexFile d opts) =
     [d @ (if language opts = Typescript then ''/src/index.ts'' else ''/src/index.js'')]"
  by (simp add: generateIndexFile_def written_paths_Cons written_paths_Nil path_join3)

lemma written_paths_copyTemplateFiles:
  "written_paths (copyTemplateFiles d opts) =
     [d @ ''/tsconfig.json'', d @ ''/README.md'']
     @ written_paths (generateIndexFile d opts)
     @ written_paths (generateBasicFiles d opts)"
  by (simp add: copyTemplateFiles_def written_paths_append written_paths_Cons
      written_paths_Nil path_join2)

lemma written_paths_generateProject:
  "written_paths (generateProject d opts) =
     [d @ ''/package.json'', d @ ''/.env.example'', d @ ''/.env'', d @ ''/.gitignore'',
      d @ ''/tsconfig.json'', d @ ''/README.md'',
      d @ (if language opts = Typescript then ''/src/index.ts'' else ''/src/index.js''),
      d @ ''/src/controllers/example.controller.ts'', d @ ''/src/routes/example.routes.ts'']
     @ (if database opts \<noteq> DbNone then [d @ ''/src/models/example.model.ts''] else [])"
proof -
  have s: "written_paths (generateProjectStructure d opts) = []"
    unfolding generateProjectStructure_def Let_def by (rule written_paths_map_EnsureDir)
  have p: "written_paths (generatePackageJson d opts) = [d @ ''/package.json'']"
    by (simp add: generatePackageJson_def written_paths_Cons written_paths_Nil path_join2)
  have e: "written_paths (generateEnvFile d opts) =
      [d @ ''/.env.example'', d @ ''/.env'', d @ ''/.gitignore'']"
    by (simp add: generateEnvFile_def written_paths_Cons written_paths_Nil path_join2)
  show ?thesis
    unfolding generateProject_def written_paths_append s p e written_paths_copyTemplateFiles
      written_paths_generateIndexFile written_paths_generateBasicFiles
    by (simp add: written_paths_Cons written_paths_Nil)
qed

lemma ensured_dirs_generateProject_no_database:
  assumes "database opts = DbNone"
  shows "ensured_dirs (generateProject d opts) =
     d # map (\<lambda>x. d @ ''/'' @ x)
       ([''src'', ''src/controllers'', ''src/routes'', ''src/middleware'', ''src/utils'',
         ''src/config'']
        @ (if Auth \<in> set (features opts) then [''src/auth''] else [])
        @ (if Tests \<in> set (features opts)
           then [''tests'', ''tests/unit'', ''tests/integration''] else []))"
proof -
  have s: "ensured_dirs (generateProjectStructure d opts) =
      map (\<lambda>x. d @ ''/'' @ x)
       ([''src'', ''src/controllers'', ''src/routes'', ''src/middleware'', ''src/utils'',
         ''src/config'']
        @ (if Auth \<in> set (features opts) then [''src/auth''] else [])
        @ (if Tests \<in> set (features opts)
           then [''tests'', ''tests/unit'', ''tests/integration''] else []))"
    unfolding generateProjectStructure_def Let_def path_join2 ensured_dirs_map_EnsureDir
    using assms by simp
  have p: "ensured_dirs (generatePackageJson d opts) = []"
    by (simp add: generatePackageJson_def ensured_dirs_Cons ensured_dirs_Nil)
  have e: "ensured_dirs (generateEnvFile d opts) = []"
    by (simp add: generateEnvFile_def ensured_dirs_Cons ensured_dirs_Nil)
  have c: "ensured_dirs (copyTemplateFiles d opts) = []"
    by (simp add: copyTemplateFiles_def generateIndexFile_def generateBasicFiles_def
        ensured_dirs_append ensured_dirs_Cons ensured_dirs_Nil)
  show ?thesis
    unfolding generateProject_def ensured_dirs_append s p e c
    by (simp add: ensured_dirs_Cons ensured_dirs_Nil)
qed

section \<open>Facts about lines\<close>

lemma split_lines_not_Nil: "split_lines s \<noteq> []"
  by (induction s) (auto split: list.splits)

lemma split_lines_no_newline: "CHR 0x0A \<notin> set s \<Longrightarrow> split_lines s = [s]"
  by (induction s) auto

lemma split_lines_append_newline:
  "split_lines (a @ CHR 0x0A # b) = split_lines a @ split_lines b"
proof (induction a)
  case Nil
  show ?case by simp
next
  case (Cons c a)
  obtain l ls where "split_lines a = l # ls"
    using split_lines_not_Nil [of a] by (cases "split_lines a") auto
  with Cons show ?case by simp
qed

lemma split_lines_join:
  "xs \<noteq> [] \<Longrightarrow> split_lines (join nl xs) = concat (map split_lines xs)"
proof (induction xs rule: induct_list012)
  case 1
  then show ?case by simp
next
  case (2 x)
  show ?case by simp
next
  case (3 x y zs)
  then show ?case by (simp add: nl_def split_lines_append_newline)
qed

lemma split_lines_join_lines:
  assumes "xs \<noteq> []" and "\<forall>l \<in> set xs. CHR 0x0A \<notin> set l"
  shows "split_lines (join nl xs) = xs"
proof -
  have "concat (map split_lines xs) = xs"
    using assms(2) by (induction xs) (simp_all add: split_lines_no_newline)
  with split_lines_join [OF assms(1)] show ?thesis by simp
qed

lemma valid_name_no_newline:
  assumes "list_all valid_name_char n"
  shows "CHR 0x0A \<notin> set n"
proof
  assume "CHR 0x0A \<in> set n"
  with assms have "valid_name_char (CHR 0x0A)" by (simp add: list_all_iff)
  then show False by (simp add: valid_name_char_def)
qed

section \<open>Facts about generated texts\<close>

lemma join_append:
  "xs \<noteq> [] \<Longrightarrow> ys \<noteq> [] \<Longrightarrow> join sep (xs @ ys) = join sep xs @ sep @ join sep ys"
proof (induction xs rule: induct_list012)
  case 1
  then show ?case by simp
next
  case (2 x)
  then show ?case by (cases ys) simp_all
next
  case (3 x y xs)
  then show ?case by simp
qed

lemma join_flatten:
  assumes "ys \<noteq> []"
  shows "join sep (xs @ [join sep ys] @ zs) = join sep (xs @ ys @ zs)"
proof -
  have m: "join sep ([join sep ys] @ zs) = join sep (ys @ zs)"
  proof (cases zs)
    case Nil
    then show ?thesis by simp
  next
    case (Cons z zs')
    then have "join sep ([join sep ys] @ zs) = join sep ys @ sep @ join sep zs" by simp
    also have "\<dots> = join sep (ys @ zs)" using assms Cons by (simp add: join_append)
    finally show ?thesis .
  qed
  show ?thesis
  proof (cases xs)
    case Nil
    with m show ?thesis by simp
  next
    case (Cons x xs')
    then have "join sep (xs @ [join sep ys] @ zs) = join sep xs @ sep @ join sep ([join sep ys] @ zs)"
      by (intro join_append) simp_all
    also have "\<dots> = join sep xs @ sep @ join sep (ys @ zs)" by (simp only: m)
    also have "\<dots> = join sep (xs @ ys @ zs)"
      using assms Cons by (intro join_append [symmetric]) simp_all
    finally show ?thesis .
  qed
qed

lemma split_lines_join_Cons:
  "CHR 0x0A \<notin> set x \<Longrightarrow> split_lines (join nl (x # y # ys)) = x # split_lines (join nl (y # ys))"
  by (simp add: nl_def split_lines_append_newline split_lines_no_newline)

lemma find_line_join:
  assumes "\<forall>l \<in> set pre. CHR 0x0A \<notin> set l \<and> \<not> P l"
    and "CHR 0x0A \<notin> set x" and "P x"
  shows "find P (split_lines (join nl (pre @ x # post))) = Some x"
  using assms(1)
proof (induction pre)
  case Nil
  show ?case
  proof (cases post)
    case Nil
    with assms(2,3) show ?thesis by (simp add: split_lines_no_newline)
  next
    case (Cons q post')
    with assms(2,3) show ?thesis by (simp add: split_lines_join_Cons del: join.simps)
  qed
next
  case (Cons p pre)
  obtain y ys where "pre @ x # post = y # ys" by (cases pre) auto
  with Cons show ?case by (simp add: split_lines_join_Cons del: join.simps)
qed

lemma envContent_flat:
  "envContent opts =
     [''# Server Configuration'', ''PORT=3000'', ''NODE_ENV=development'', '''']
     @ (if database opts = Mongodb
        then [''# Database Configuration'',
              ''MONGODB_URI=mongodb://localhost:27017/'' @ name opts, '''']
        else [])
     @ (if Auth \<in> set (features opts) then
          [''# Authentication'', ''JWT_SECRET=your-secret-key'', ''JWT_EXPIRES_IN=1d'']
          @ (if authStrategy opts = Some Session \<or> authStrategy opts = Some Oauth
             then [''SESSION_SECRET=your-session-secret''] else [])
          @ (if authStrategy opts = Some Oauth
             then [''# OAuth Configuration'',
                   ''GOOGLE_CLIENT_ID=your-google-client-id'',
                   ''GOOGLE_CLIENT_SECRET=your-google-client-secret'',
                   ''GITHUB_CLIENT_ID=your-github-client-id'',
                   ''GITHUB_CLIENT_SECRET=your-github-client-secret'']
             else [])
          @ ['''']
        else [])"
  by (cases "database opts") (simp_all add: envContent_def Let_def)

lemma envContent_lines:
  assumes "list_all valid_name_char (name opts)"
  shows "split_lines (join nl (envContent opts)) = envContent opts"
proof (rule split_lines_join_lines)
  show "envContent opts \<noteq> []" by (simp add: envContent_flat)
  have n: "CHR 0x0A \<notin> set (name opts)" by (rule valid_name_no_newline [OF assms])
  show "\<forall>l \<in> set (envContent opts). CHR 0x0A \<notin> set l"
    unfolding list_all_iff [symmetric] envContent_flat using n by simp
qed

lemma indexContent_shape:
  "\<exists>post. indexContent opts = join nl
      ([''import express from 'express';'',
       ''import cors from 'cors';'',
       ''import helmet from 'helmet';'',
       ''import morgan from 'morgan';'',
       ''import 'dotenv/config';'',
       (if database opts = Mongodb then ''import mongoose from 'mongoose';'' else ''''),
       (if Auth \<in> set (features opts) then ''import passport from 'passport';'' else ''''),
       (if Auth \<in> set (features opts) \<and> authStrategy opts = Some Session
       then ''import session from 'express-session';'' else ''''),
       (if Auth \<in> set (features opts) \<and> authStrategy opts = Some Session \<and>
          database opts = Mongodb
       then ''import MongoStore from 'connect-mongo';'' else ''''),
       '''',
       ''const app = express();'',
       ''const port = process.env.PORT || 3000;'',
       '''',
       ''// Connect to MongoDB'']
       @ [(if database opts = Mongodb then join nl
         ['''',
          ''mongoose.connect(process.env.MONGODB_URI || 'mongodb://localhost:27017/'' @ name opts @ [CHR 0x27] @ '')'',
          ''  .then(() => console.log('Connected to MongoDB'))'',
          ''  .catch(err => console.error('MongoDB connection error:', err));'',
          '''']
       else '''')]
       @ post)"
  unfolding indexContent_def Let_def
  by (simp only: append_Cons append_Nil) (rule exI, rule refl)

lemma connect_fallback_found:
  assumes "find (prefix connect_marker) (split_lines content) =
             Some (connect_marker @ u @ [CHR 0x27] @ '')'')"
  shows "connect_fallback content = Some u"
proof -
  have "suffix ([CHR 0x27] @ '')'') (u @ [CHR 0x27] @ '')'')"
    by (rule suffixI) simp
  then show ?thesis
    unfolding connect_fallback_def assms by (simp add: Let_def)
qed

lemma indexContent_connect_line:
  assumes "list_all valid_name_char (name opts)" and "database opts = Mongodb"
  shows "find (prefix connect_marker) (split_lines (indexContent opts)) =
           Some (connect_marker @ (''mongodb://localhost:27017/'' @ name opts)
                 @ [CHR 0x27] @ '')'')"
proof -
  let ?line = "connect_marker @ (''mongodb://localhost:27017/'' @ name opts) @ [CHR 0x27] @ '')''"
  let ?pre = "[''import express from 'express';'',
       ''import cors from 'cors';'',
       ''import helmet from 'helmet';'',
       ''import morgan from 'morgan';'',
       ''import 'dotenv/config';'',
       (if database opts = Mongodb then ''import mongoose from 'mongoose';'' else ''''),
       (if Auth \<in> set (features opts) then ''import passport from 'passport';'' else ''''),
       (if Auth \<in> set (features opts) \<and> authStrategy opts = Some Session
       then ''import session from 'express-session';'' else ''''),
       (if Auth \<in> set (features opts) \<and> authStrategy opts = Some Session \<and>
          database opts = Mongodb
       then ''import MongoStore from 'connect-mongo';'' else ''''),
       '''',
       ''const app = express();'',
       ''const port = process.env.PORT || 3000;'',
       '''',
       ''// Connect to MongoDB'']"
  obtain post where sh: "indexContent opts = join nl
      (?pre
       @ [(if database opts = Mongodb then join nl
         ['''',
          ''mongoose.connect(process.env.MONGODB_URI || 'mongodb://localhost:27017/'' @ name opts @ [CHR 0x27] @ '')'',
          ''  .then(() => console.log('Connected to MongoDB'))'',
          ''  .catch(err => console.error('MongoDB connection error:', err));'',
          '''']
       else '''')]
       @ post)"
    using indexContent_shape by blast
  have n: "CHR 0x0A \<notin> set (name opts)" by (rule valid_name_no_newline [OF assms(1)])
  have blk: "(if database opts = Mongodb then join nl
         ['''',
          ''mongoose.connect(process.env.MONGODB_URI || 'mongodb://localhost:27017/'' @ name opts @ [CHR 0x27] @ '')'',
          ''  .then(() => console.log('Connected to MongoDB'))'',
          ''  .catch(err => console.error('MongoDB connection error:', err));'',
          '''']
       else '''') = join nl
         ['''', ?line,
          ''  .then(() => console.log('Connected to MongoDB'))'',
          ''  .catch(err => console.error('MongoDB connection error:', err));'',
          '''']"
    using assms(2) by (simp add: connect_marker_def)
  have "indexContent opts = join nl (?pre @ ['''', ?line, ''  .then(() => console.log('Connected to MongoDB'))'', ''  .catch(err => console.error('MongoDB connection error:', err));'', ''''] @ post)"
    unfolding sh blk by (rule join_flatten) simp
  then have c: "indexContent opts =
      join nl ((?pre @ ['''']) @ ?line # ([''  .then(() => console.log('Connected to MongoDB'))'', ''  .catch(err => console.error('MongoDB connection error:', err));'', ''''] @ post))"
    by simp
  have 1: "\<forall>l \<in> set (?pre @ ['''']). CHR 0x0A \<notin> set l \<and> \<not> prefix connect_marker l"
    unfolding list_all_iff [symmetric] by (simp add: connect_marker_def)
  have 2: "CHR 0x0A \<notin> set ?line" using n by (simp add: connect_marker_def)
  have 3: "prefix connect_marker ?line" by simp
  show ?thesis unfolding c by (rule find_line_join [OF 1 2 3])
qed

section \<open>Claims\<close>

text \<open>
  C1. For every configuration that satisfies the consistency predicate, the dependency
  resolver returns a runtime and a development manifest (\<open>getDependencies\<close> and
  \<open>getDevDependencies\<close> have no raising statement and no loop, so they are total
  functions of the configuration), the runtime manifest is not empty, the keys of each
  manifest are unique, and equal configurations give equal manifests.
\<close>

theorem resolver_total_nonempty_deterministic:
  assumes "isConsistent opts"
  shows "\<exists>rt dev. getDependencies opts = rt \<and> getDevDependencies opts = dev \<and> rt \<noteq> [] \<and>
           distinct (map fst rt) \<and> distinct (map fst dev) \<and>
           (\<forall>opts'. opts' = opts \<longrightarrow>
              getDependencies opts' = rt \<and> getDevDependencies opts' = dev)"
  by (simp add: getDependencies_not_Nil distinct_getDependencies distinct_getDevDependencies)

theorem resolver_total_nonempty_deterministic_witness:
  "isConsistent demo_ts \<and> getDependencies demo_ts \<noteq> [] \<and>
   getDependencies demo_ts =
     [(''@types/node'', ''latest''), (''dotenv'', ''latest''), (''express'', ''latest''),
      (''cors'', ''latest''), (''helmet'', ''latest''), (''morgan'', ''latest''),
      (''mongodb'', ''latest''), (''mongoose'', ''latest'')]"
  using resolver_total_nonempty_deterministic [of demo_ts]
  by (simp add: isConsistent_def valid_name_char_def demo_ts_def getDependencies_def
      assigns_def isDatabaseMongoDB_def isORMMongoose_def)

text \<open>
  C2, as amended. For every configuration that violates the consistency predicate, the
  resolver and the synthesizer return output all the same, since neither has a raising
  statement or compares two fields: the manifest has unique keys and holds the base and
  framework packages, mongoose whenever the ORM is mongoose and, when auth is selected
  without a strategy, passport, express-session and bcrypt but none of the strategy
  packages; the synthesizer writes tsconfig.json, README.md, the entry point, the
  controller and route stubs, and the model stub when the database is not \<open>none\<close>.
\<close>

theorem resolver_and_synthesizer_unvalidated:
  assumes "\<not> isConsistent opts"
  shows "distinct (map fst (getDependencies opts)) \<and>
         (\<forall>k \<in> {''@types/node'', ''dotenv'', ''express'', ''cors'', ''helmet'', ''morgan''}.
            k \<in> fst ` set (getDependencies opts)) \<and>
         (orm opts = Mongoose \<longrightarrow> ''mongoose'' \<in> fst ` set (getDependencies opts)) \<and>
         (Auth \<in> set (features opts) \<and> authStrategy opts = None \<longrightarrow>
            (\<forall>k \<in> {''passport'', ''express-session'', ''bcrypt''}.
               k \<in> fst ` set (getDependencies opts)) \<and>
            (\<forall>k \<in> {''passport-jwt'', ''jsonwebtoken'', ''connect-mongo'', ''passport-local'',
                    ''passport-google-oauth20'', ''passport-github2''}.
               k \<notin> fst ` set (getDependencies opts))) \<and>
         written_paths (copyTemplateFiles projectDir opts) =
           [path_join [projectDir, ''tsconfig.json''], path_join [projectDir, ''README.md''],
            path_join [projectDir, ''src'',
              ''index'' @ (if language opts = Typescript then ''.ts'' else ''.js'')],
            path_join [projectDir, ''src'', ''controllers'', ''example.controller.ts''],
            path_join [projectDir, ''src'', ''routes'', ''example.routes.ts'']]
           @ (if database opts \<noteq> DbNone
              then [path_join [projectDir, ''src'', ''models'', ''example.model.ts'']]
              else [])"
proof -
  have 1: "\<forall>k \<in> {''@types/node'', ''dotenv'', ''express'', ''cors'', ''helmet'', ''morgan''}.
            k \<in> fst ` set (getDependencies opts)"
    unfolding keys_getDependencies by simp
  have 2: "orm opts = Mongoose \<longrightarrow> ''mongoose'' \<in> fst ` set (getDependencies opts)"
    unfolding keys_getDependencies by simp
  have 3: "Auth \<in> set (features opts) \<and> authStrategy opts = None \<longrightarrow>
            (\<forall>k \<in> {''passport'', ''express-session'', ''bcrypt''}.
               k \<in> fst ` set (getDependencies opts)) \<and>
            (\<forall>k \<in> {''passport-jwt'', ''jsonwebtoken'', ''connect-mongo'', ''passport-local'',
                    ''passport-google-oauth20'', ''passport-github2''}.
               k \<notin> fst ` set (getDependencies opts))"
    unfolding keys_getDependencies by simp
  have 4: "written_paths (copyTemplateFiles projectDir opts) =
           [path_join [projectDir, ''tsconfig.json''], path_join [projectDir, ''README.md''],
            path_join [projectDir, ''src'',
              ''index'' @ (if language opts = Typescript then ''.ts'' else ''.js'')],
            path_join [projectDir, ''src'', ''controllers'', ''example.controller.ts''],
            path_join [projectDir, ''src'', ''routes'', ''example.routes.ts'']]
           @ (if database opts \<noteq> DbNone
              then [path_join [projectDir, ''src'', ''models'', ''example.model.ts'']]
              else [])"
    unfolding written_paths_copyTemplateFiles written_paths_generateIndexFile
      written_paths_generateBasicFiles path_join2 path_join3 path_join4
    by simp
  from distinct_getDependencies [of opts] 1 2 3 4 show ?thesis by (intro conjI)
qed

theorem resolver_and_synthesizer_unvalidated_witness:
  "\<not> isConsistent bad_orm \<and> orm bad_orm = Mongoose \<and> database bad_orm = DbNone \<and>
   ''mongoose'' \<in> fst ` set (getDependencies bad_orm) \<and>
   written_paths (copyTemplateFiles ''/tmp/demo'' bad_orm) =
     [''/tmp/demo/tsconfig.json'', ''/tmp/demo/README.md'', ''/tmp/demo/src/index.ts'',
      ''/tmp/demo/src/controllers/example.controller.ts'',
      ''/tmp/demo/src/routes/example.routes.ts'']"
proof -
  have c: "\<not> isConsistent bad_orm"
    by (simp add: isConsistent_def bad_orm_def)
  have f: "orm bad_orm = Mongoose" "database bad_orm = DbNone" "language bad_orm = Typescript"
    by (simp_all add: bad_orm_def)
  from resolver_and_synthesizer_unvalidated [OF c, of "''/tmp/demo''"] c f
  show ?thesis by (simp add: path_join_def)
qed

text \<open>
  C2 as stated (an inconsistent configuration makes the resolver and the synthesizer raise
  an error instead of returning output) fails at \<open>bad_orm\<close>, database \<open>none\<close> with ORM
  mongoose, and at \<open>bad_auth\<close>, auth selected without a strategy: both get a manifest,
  and the files of \<open>bad_orm\<close> are written.
\<close>

theorem inconsistent_configuration_accepted:
  "\<not> isConsistent bad_orm \<and> database bad_orm = DbNone \<and> orm bad_orm = Mongoose \<and>
   getDependencies bad_orm =
     [(''@types/node'', ''latest''), (''dotenv'', ''latest''), (''express'', ''latest''),
      (''cors'', ''latest''), (''helmet'', ''latest''), (''morgan'', ''latest''),
      (''mongoose'', ''latest'')] \<and>
   written_paths (copyTemplateFiles ''/tmp/demo'' bad_orm) =
     [''/tmp/demo/tsconfig.json'', ''/tmp/demo/README.md'', ''/tmp/demo/src/index.ts'',
      ''/tmp/demo/src/controllers/example.controller.ts'',
      ''/tmp/demo/src/routes/example.routes.ts''] \<and>
   \<not> isConsistent bad_auth \<and> Auth \<in> set (features bad_auth) \<and>
   authStrategy bad_auth = None \<and>
   getDependencies bad_auth =
     [(''@types/node'', ''latest''), (''dotenv'', ''latest''), (''express'', ''latest''),
      (''cors'', ''latest''), (''helmet'', ''latest''), (''morgan'', ''latest''),
      (''mongodb'', ''latest''), (''mongoose'', ''latest''), (''passport'', ''latest''),
      (''express-session'', ''latest''), (''bcrypt'', ''latest'')]"
proof -
  have 1: "written_paths (copyTemplateFiles ''/tmp/demo'' bad_orm) =
     [''/tmp/demo/tsconfig.json'', ''/tmp/demo/README.md'', ''/tmp/demo/src/index.ts'',
      ''/tmp/demo/src/controllers/example.controller.ts'',
      ''/tmp/demo/src/routes/example.routes.ts'']"
    unfolding written_paths_copyTemplateFiles written_paths_generateIndexFile
      written_paths_generateBasicFiles
    by (simp add: bad_orm_def)
  have 2: "getDependencies bad_orm =
     [(''@types/node'', ''latest''), (''dotenv'', ''latest''), (''express'', ''latest''),
      (''cors'', ''latest''), (''helmet'', ''latest''), (''morgan'', ''latest''),
      (''mongoose'', ''latest'')]"
    by (simp add: bad_orm_def getDependencies_def assigns_def isDatabaseMongoDB_def
        isORMMongoose_def)
  have 3: "getDependencies bad_auth =
     [(''@types/node'', ''latest''), (''dotenv'', ''latest''), (''express'', ''latest''),
      (''cors'', ''latest''), (''helmet'', ''latest''), (''morgan'', ''latest''),
      (''mongodb'', ''latest''), (''mongoose'', ''latest''), (''passport'', ''latest''),
      (''express-session'', ''latest''), (''bcrypt'', ''latest'')]"
    by (simp add: bad_auth_def getDependencies_def assigns_def isDatabaseMongoDB_def
        isORMMongoose_def)
  have 4: "\<not> isConsistent bad_orm" "database bad_orm = DbNone" "orm bad_orm = Mongoose"
    by (simp_all add: isConsistent_def bad_orm_def)
  have 5: "\<not> isConsistent bad_auth" "Auth \<in> set (features bad_auth)"
    "authStrategy bad_auth = None"
    by (simp_all add: isConsistent_def bad_auth_def)
  from 1 2 3 4 5 show ?thesis by (intro conjI)
qed

text \<open>
  C3. For every consistent configuration, \<open>.env\<close> and \<open>.env.example\<close> are written with
  the same text, and the variables that its lines define are, in this order and once
  each: PORT and NODE_ENV always; MONGODB_URI exactly when the database is mongodb;
  JWT_SECRET and JWT_EXPIRES_IN exactly when auth is selected; SESSION_SECRET exactly when
  the strategy is session or oauth; the four GOOGLE and GITHUB client variables exactly
  when the strategy is oauth.
\<close>

theorem env_file_variables:
  assumes "isConsistent opts"
  shows "generateEnvFile projectDir opts =
           [WriteFile (path_join [projectDir, ''.env.example'']) (join nl (envContent opts)),
            WriteFile (path_join [projectDir, ''.env'']) (join nl (envContent opts)),
            WriteFile (path_join [projectDir, ''.gitignore''])
              (join nl [''node_modules'', ''dist'', ''.env'', ''''])] \<and>
         List.map_filter env_var_of_line (split_lines (join nl (envContent opts))) =
           [''PORT'', ''NODE_ENV'']
           @ (if database opts = Mongodb then [''MONGODB_URI''] else [])
           @ (if Auth \<in> set (features opts) then [''JWT_SECRET'', ''JWT_EXPIRES_IN''] else [])
           @ (if authStrategy opts = Some Session \<or> authStrategy opts = Some Oauth
              then [''SESSION_SECRET''] else [])
           @ (if authStrategy opts = Some Oauth
              then [''GOOGLE_CLIENT_ID'', ''GOOGLE_CLIENT_SECRET'',
                    ''GITHUB_CLIENT_ID'', ''GITHUB_CLIENT_SECRET'']
              else []) \<and>
         env_vars (join nl (envContent opts)) =
           {''PORT'', ''NODE_ENV''}
           \<union> (if database opts = Mongodb then {''MONGODB_URI''} else {})
           \<union> (if Auth \<in> set (features opts) then {''JWT_SECRET'', ''JWT_EXPIRES_IN''} else {})
           \<union> (if authStrategy opts = Some Session \<or> authStrategy opts = Some Oauth
              then {''SESSION_SECRET''} else {})
           \<union> (if authStrategy opts = Some Oauth
              then {''GOOGLE_CLIENT_ID'', ''GOOGLE_CLIENT_SECRET'',
                    ''GITHUB_CLIENT_ID'', ''GITHUB_CLIENT_SECRET''}
              else {})"
proof -
  from assms have nm: "list_all valid_name_char (name opts)"
    and au: "(authStrategy opts \<noteq> None) = (Auth \<in> set (features opts))"
    by (simp_all add: isConsistent_def)
  have ls: "split_lines (join nl (envContent opts)) = envContent opts"
    by (rule envContent_lines [OF nm])
  have vs: "List.map_filter env_var_of_line (envContent opts) =
           [''PORT'', ''NODE_ENV'']
           @ (if database opts = Mongodb then [''MONGODB_URI''] else [])
           @ (if Auth \<in> set (features opts) then [''JWT_SECRET'', ''JWT_EXPIRES_IN''] else [])
           @ (if authStrategy opts = Some Session \<or> authStrategy opts = Some Oauth
              then [''SESSION_SECRET''] else [])
           @ (if authStrategy opts = Some Oauth
              then [''GOOGLE_CLIENT_ID'', ''GOOGLE_CLIENT_SECRET'',
                    ''GITHUB_CLIENT_ID'', ''GITHUB_CLIENT_SECRET'']
              else [])"
  proof (cases "authStrategy opts")
    case None
    with au have "Auth \<notin> set (features opts)" by simp
    with None show ?thesis
      unfolding envContent_flat
      by (cases "database opts") (simp_all add: map_filter_simps env_var_of_line_def)
  next
    case (Some a)
    with au have "Auth \<in> set (features opts)" by simp
    with Some show ?thesis
      unfolding envContent_flat
      by (cases "database opts"; cases a) (simp_all add: map_filter_simps env_var_of_line_def)
  qed
  have "generateEnvFile projectDir opts =
           [WriteFile (path_join [projectDir, ''.env.example'']) (join nl (envContent opts)),
            WriteFile (path_join [projectDir, ''.env'']) (join nl (envContent opts)),
            WriteFile (path_join [projectDir, ''.gitignore''])
              (join nl [''node_modules'', ''dist'', ''.env'', ''''])]"
    by (simp only: generateEnvFile_def)
  moreover have "env_vars (join nl (envContent opts)) =
           {''PORT'', ''NODE_ENV''}
           \<union> (if database opts = Mongodb then {''MONGODB_URI''} else {})
           \<union> (if Auth \<in> set (features opts) then {''JWT_SECRET'', ''JWT_EXPIRES_IN''} else {})
           \<union> (if authStrategy opts = Some Session \<or> authStrategy opts = Some Oauth
              then {''SESSION_SECRET''} else {})
           \<union> (if authStrategy opts = Some Oauth
              then {''GOOGLE_CLIENT_ID'', ''GOOGLE_CLIENT_SECRET'',
                    ''GITHUB_CLIENT_ID'', ''GITHUB_CLIENT_SECRET''}
              else {})"
    unfolding env_vars_def ls vs by (simp only: set_append set_simps if_distrib [of set]) simp
  ultimately show ?thesis unfolding ls vs by (intro conjI) (rule refl | assumption)+
qed

theorem env_file_variables_witness:
  "isConsistent demo_oauth \<and>
   List.map_filter env_var_of_line (split_lines (join nl (envContent demo_oauth))) =
     [''PORT'', ''NODE_ENV'', ''MONGODB_URI'', ''JWT_SECRET'', ''JWT_EXPIRES_IN'',
      ''SESSION_SECRET'', ''GOOGLE_CLIENT_ID'', ''GOOGLE_CLIENT_SECRET'',
      ''GITHUB_CLIENT_ID'', ''GITHUB_CLIENT_SECRET'']"
proof -
  have c: "isConsistent demo_oauth"
    by (simp add: isConsistent_def valid_name_char_def demo_oauth_def)
  have "List.map_filter env_var_of_line (split_lines (join nl (envContent demo_oauth))) =
     [''PORT'', ''NODE_ENV''] @ [''MONGODB_URI''] @ [''JWT_SECRET'', ''JWT_EXPIRES_IN'']
     @ [''SESSION_SECRET'']
     @ [''GOOGLE_CLIENT_ID'', ''GOOGLE_CLIENT_SECRET'',
        ''GITHUB_CLIENT_ID'', ''GITHUB_CLIENT_SECRET'']"
    using env_file_variables [OF c, of "''/tmp/demo''"] by (simp add: demo_oauth_def)
  with c show ?thesis by simp
qed

text \<open>
  C4, as amended. For every consistent configuration, whatever the language, a run writes
  tsconfig.json, once, with the fixed compiler options: \<open>copyTemplateFiles\<close> writes it
  first and without a condition.
\<close>

theorem tsconfig_always_written:
  assumes "isConsistent opts"
  shows "WriteJSON (path_join [projectDir, ''tsconfig.json'']) tsconfig
           \<in> set (generateProject projectDir opts) \<and>
         count_list (written_paths (generateProject projectDir opts))
           (path_join [projectDir, ''tsconfig.json'']) = 1"
proof -
  have 1: "WriteJSON (path_join [projectDir, ''tsconfig.json'']) tsconfig
           \<in> set (generateProject projectDir opts)"
    by (simp add: generateProject_def copyTemplateFiles_def)
  have 2: "count_list (written_paths (generateProject projectDir opts))
           (path_join [projectDir, ''tsconfig.json'']) = 1"
    unfolding written_paths_generateProject path_join2
    by (cases "language opts"; cases "database opts") simp_all
  from 1 2 show ?thesis by (intro conjI)
qed

theorem tsconfig_always_written_witness:
  "isConsistent demo_js \<and> language demo_js = Javascript \<and>
   WriteJSON ''/tmp/demo/tsconfig.json'' tsconfig \<in> set (generateProject ''/tmp/demo'' demo_js)"
proof -
  have c: "isConsistent demo_js"
    by (simp add: isConsistent_def valid_name_char_def demo_js_def)
  from tsconfig_always_written [OF c, of "''/tmp/demo''"] c
  show ?thesis by (simp add: path_join_def demo_js_def)
qed

text \<open>
  C4 as stated (tsconfig.json is written exactly when the language is typescript) fails
  at the consistent javascript configuration \<open>demo_js\<close>, for which the file is written.
\<close>

theorem tsconfig_written_for_javascript:
  "isConsistent demo_js \<and> language demo_js = Javascript \<and>
   \<not> (path_join [''/tmp/demo'', ''tsconfig.json'']
          \<in> set (written_paths (generateProject ''/tmp/demo'' demo_js))
        \<longleftrightarrow> language demo_js = Typescript)"
  unfolding written_paths_generateProject
  by (simp add: isConsistent_def valid_name_char_def demo_js_def path_join_def)

text \<open>
  C5. The claim is that a javascript configuration has no type-definition package in the
  resolver's base set. The source starts \<open>dependencies\<close> from a literal that holds
  \<open>@types/node\<close> whatever the language, while \<open>getDevDependencies\<close> adds the same
  package only for typescript. At the consistent javascript configuration \<open>demo_js\<close>
  the runtime manifest starts with \<open>@types/node\<close>, and the development manifest has no
  type-definition package.
\<close>

theorem type_definitions_in_javascript_base:
  "isConsistent demo_js \<and> language demo_js = Javascript \<and>
   getDependencies demo_js =
     [(''@types/node'', ''latest''), (''dotenv'', ''latest''), (''express'', ''latest''),
      (''cors'', ''latest''), (''helmet'', ''latest''), (''morgan'', ''latest''),
      (''mongodb'', ''latest''), (''mongoose'', ''latest'')] \<and>
   getDevDependencies demo_js =
     [(''nodemon'', ''^3.0.1''), (''eslint'', ''^8.49.0''), (''prettier'', ''^3.0.3'')]"
  by (simp add: isConsistent_def valid_name_char_def demo_js_def getDependencies_def
      getDevDependencies_def assigns_def isDatabaseMongoDB_def isORMMongoose_def)

text \<open>
  C6. The claim is that with session authentication the session-store package matches the
  database, so that \<open>connect-mongo\<close> is absent when the database is \<open>none\<close>. The session
  branch of \<open>getDependencies\<close> adds \<open>connect-mongo\<close> without looking at the
  database, while \<open>generateIndexFile\<close> imports it only for mongodb. At the consistent
  configuration \<open>demo_session_none\<close> the runtime manifest holds \<open>connect-mongo\<close>, and
  no line of the entry point imports it.
\<close>

theorem connect_mongo_without_mongodb:
  "isConsistent demo_session_none \<and> database demo_session_none = DbNone \<and>
   Auth \<in> set (features demo_session_none) \<and>
   authStrategy demo_session_none = Some Session \<and>
   getDependencies demo_session_none =
     [(''@types/node'', ''latest''), (''dotenv'', ''latest''), (''express'', ''latest''),
      (''cors'', ''latest''), (''helmet'', ''latest''), (''morgan'', ''latest''),
      (''passport'', ''latest''), (''express-session'', ''latest''),
      (''connect-mongo'', ''latest''), (''passport-local'', ''latest''),
      (''bcrypt'', ''latest'')] \<and>
   ''import MongoStore from 'connect-mongo';''
     \<notin> set (split_lines (indexContent demo_session_none))"
proof -
  have "''import MongoStore from 'connect-mongo';''
      \<notin> set (split_lines (indexContent demo_session_none))"
    by code_simp
  then show ?thesis
    by (simp add: isConsistent_def valid_name_char_def demo_session_none_def
        getDependencies_def assigns_def isDatabaseMongoDB_def isORMMongoose_def)
qed

text \<open>
  C7. For every consistent configuration whose database is \<open>none\<close>, no written path lies
  under \<open>src/models/\<close>, neither \<open>src/models\<close> nor the ORM directory \<open>src/schemas\<close> is
  among the ensured directories, and no model stub is written.
\<close>

theorem no_models_without_database:
  assumes "isConsistent opts" and "database opts = DbNone"
  shows "(\<forall>p \<in> set (written_paths (generateProject projectDir opts)).
            \<not> prefix (path_join [projectDir, ''src'', ''models''] @ ''/'') p) \<and>
         path_join [projectDir, ''src/models'']
           \<notin> set (ensured_dirs (generateProject projectDir opts)) \<and>
         path_join [projectDir, ''src/schemas'']
           \<notin> set (ensured_dirs (generateProject projectDir opts)) \<and>
         path_join [projectDir, ''src'', ''models'', ''example.model.ts'']
           \<notin> set (written_paths (generateProject projectDir opts)) \<and>
         written_paths (generateBasicFiles projectDir opts) =
           [path_join [projectDir, ''src'', ''controllers'', ''example.controller.ts''],
            path_join [projectDir, ''src'', ''routes'', ''example.routes.ts'']]"
proof -
  have w: "written_paths (generateProject projectDir opts) =
     [projectDir @ ''/package.json'', projectDir @ ''/.env.example'', projectDir @ ''/.env'',
      projectDir @ ''/.gitignore'', projectDir @ ''/tsconfig.json'', projectDir @ ''/README.md'',
      projectDir @ (if language opts = Typescript then ''/src/index.ts'' else ''/src/index.js''),
      projectDir @ ''/src/controllers/example.controller.ts'',
      projectDir @ ''/src/routes/example.routes.ts'']"
    unfolding written_paths_generateProject using assms(2) by simp
  have 1: "\<forall>p \<in> set (written_paths (generateProject projectDir opts)).
            \<not> prefix (path_join [projectDir, ''src'', ''models''] @ ''/'') p"
    unfolding w path_join3 by simp
  have 2: "path_join [projectDir, ''src/models'']
           \<notin> set (ensured_dirs (generateProject projectDir opts))"
    unfolding ensured_dirs_generateProject_no_database [OF assms(2)] path_join2
    by (cases "Auth \<in> set (features opts)"; cases "Tests \<in> set (features opts)") simp_all
  have 3: "path_join [projectDir, ''src/schemas'']
           \<notin> set (ensured_dirs (generateProject projectDir opts))"
    unfolding ensured_dirs_generateProject_no_database [OF assms(2)] path_join2
    by (cases "Auth \<in> set (features opts)"; cases "Tests \<in> set (features opts)") simp_all
  have 4: "path_join [projectDir, ''src'', ''models'', ''example.model.ts'']
           \<notin> set (written_paths (generateProject projectDir opts))"
    unfolding w path_join4 by simp
  have 5: "written_paths (generateBasicFiles projectDir opts) =
           [path_join [projectDir, ''src'', ''controllers'', ''example.controller.ts''],
            path_join [projectDir, ''src'', ''routes'', ''example.routes.ts'']]"
    unfolding written_paths_generateBasicFiles path_join4 using assms(2) by simp
  from 1 2 3 4 5 show ?thesis by (intro conjI)
qed

theorem no_models_without_database_witness:
  "isConsistent demo_none \<and> database demo_none = DbNone \<and>
   ''/tmp/demo/src/models'' \<notin> set (ensured_dirs (generateProject ''/tmp/demo'' demo_none)) \<and>
   ''/tmp/demo/src/models/example.model.ts''
     \<notin> set (written_paths (generateProject ''/tmp/demo'' demo_none))"
proof -
  have c: "isConsistent demo_none"
    by (simp add: isConsistent_def valid_name_char_def demo_none_def)
  have d: "database demo_none = DbNone"
    by (simp add: demo_none_def)
  from no_models_without_database [OF c d, of "''/tmp/demo''"] c d
  show ?thesis by (simp add: path_join_def)
qed

text \<open>
  C8. For every consistent configuration with language typescript, the dev script of the
  written package.json is \<open>ts-node-dev --respawn --transpile-only src/index.ts\<close>, the
  manifests embedded in package.json are the resolver's, and \<open>ts-node-dev\<close> is a key of
  neither of them, while the development manifest has \<open>ts-node\<close> and \<open>nodemon\<close>.
\<close>

theorem dev_script_runner_not_installed:
  assumes "isConsistent opts" and "language opts = Typescript"
  shows "generatePackageJson projectDir opts =
           [WriteJSON (path_join [projectDir, ''package.json'']) (packageJson opts)] \<and>
         json_path [''scripts'', ''dev''] (packageJson opts) =
           Some (JString ''ts-node-dev --respawn --transpile-only src/index.ts'') \<and>
         json_path [''dependencies''] (packageJson opts) =
           Some (manifest_json (getDependencies opts)) \<and>
         json_path [''devDependencies''] (packageJson opts) =
           Some (manifest_json (getDevDependencies opts)) \<and>
         ''ts-node-dev'' \<notin> fst ` set (getDependencies opts) \<and>
         ''ts-node-dev'' \<notin> fst ` set (getDevDependencies opts) \<and>
         ''ts-node'' \<in> fst ` set (getDevDependencies opts) \<and>
         ''nodemon'' \<in> fst ` set (getDevDependencies opts)"
proof -
  have "generatePackageJson projectDir opts =
           [WriteJSON (path_join [projectDir, ''package.json'']) (packageJson opts)]"
    by (simp add: generatePackageJson_def)
  moreover have "json_path [''scripts'', ''dev''] (packageJson opts) =
           Some (JString ''ts-node-dev --respawn --transpile-only src/index.ts'')"
    using assms(2) by (simp add: packageJson_def Let_def)
  moreover have "json_path [''dependencies''] (packageJson opts) =
           Some (manifest_json (getDependencies opts))"
    by (simp add: packageJson_def Let_def)
  moreover have "json_path [''devDependencies''] (packageJson opts) =
           Some (manifest_json (getDevDependencies opts))"
    by (simp add: packageJson_def Let_def)
  moreover have "''ts-node-dev'' \<notin> fst ` set (getDependencies opts)"
    unfolding keys_getDependencies by simp
  moreover have "''ts-node-dev'' \<notin> fst ` set (getDevDependencies opts)"
    by (cases "Tests \<in> set (features opts)") (simp_all add: getDevDependencies_ts [OF assms(2)])
  moreover have "''ts-node'' \<in> fst ` set (getDevDependencies opts)"
    by (cases "Tests \<in> set (features opts)") (simp_all add: getDevDependencies_ts [OF assms(2)])
  moreover have "''nodemon'' \<in> fst ` set (getDevDependencies opts)"
    by (cases "Tests \<in> set (features opts)") (simp_all add: getDevDependencies_ts [OF assms(2)])
  ultimately show ?thesis by blast
qed

theorem dev_script_runner_not_installed_witness:
  "isConsistent demo_oauth \<and> language demo_oauth = Typescript \<and>
   json_path [''scripts'', ''dev''] (packageJson demo_oauth) =
     Some (JString ''ts-node-dev --respawn --transpile-only src/index.ts'') \<and>
   ''ts-node-dev'' \<notin> fst ` set (getDependencies demo_oauth) \<and>
   ''ts-node-dev'' \<notin> fst ` set (getDevDependencies demo_oauth) \<and>
   ''ts-node'' \<in> fst ` set (getDevDependencies demo_oauth) \<and>
   ''nodemon'' \<in> fst ` set (getDevDependencies demo_oauth)"
proof -
  have c: "isConsistent demo_oauth"
    by (simp add: isConsistent_def valid_name_char_def demo_oauth_def)
  have l: "language demo_oauth = Typescript"
    by (simp add: demo_oauth_def)
  from dev_script_runner_not_installed [OF c l, of "''/tmp/demo''"] c l
  show ?thesis by blast
qed

text \<open>
  C9. For every consistent configuration, the controller stub, the route stub and (when
  the database is not \<open>none\<close>) the model stub are the files that \<open>generateBasicFiles\<close>
  writes, and each of their paths ends in \<open>.ts\<close>, whatever the language; the entry point
  is written to \<open>src/index.ts\<close> for typescript and to \<open>src/index.js\<close> for javascript.
\<close>

theorem stubs_written_as_ts:
  assumes "isConsistent opts"
  shows "written_paths (generateBasicFiles projectDir opts) =
           [path_join [projectDir, ''src'', ''controllers'', ''example.controller.ts''],
            path_join [projectDir, ''src'', ''routes'', ''example.routes.ts'']]
           @ (if database opts \<noteq> DbNone
              then [path_join [projectDir, ''src'', ''models'', ''example.model.ts'']]
              else []) \<and>
         (\<forall>p \<in> set (written_paths (generateBasicFiles projectDir opts)). suffix ''.ts'' p) \<and>
         written_paths (generateIndexFile projectDir opts) =
           [path_join [projectDir, ''src'',
              ''index'' @ (if language opts = Typescript then ''.ts'' else ''.js'')]] \<and>
         (\<forall>p \<in> set (written_paths (generateIndexFile projectDir opts)).
            suffix ''.ts'' p \<longleftrightarrow> language opts = Typescript) \<and>
         set (generateIndexFile projectDir opts) \<union> set (generateBasicFiles projectDir opts)
           \<subseteq> set (generateProject projectDir opts)"
proof -
  have ts: "\<And>a b. suffix ''.ts'' (a @ b @ ''.ts'')"
    by (metis append.assoc suffixI)
  have js: "\<And>a. \<not> suffix ''.ts'' (a @ ''/src/index.js'')"
  proof
    fix a :: string
    assume "suffix ''.ts'' (a @ ''/src/index.js'')"
    moreover have "suffix ''/src/index.js'' (a @ ''/src/index.js'')" by (rule suffixI) simp
    ultimately have "suffix ''.ts'' ''/src/index.js''"
      by (rule suffix_length_suffix) simp
    then show False by (simp add: suffix_to_prefix)
  qed
  have 1: "written_paths (generateBasicFiles projectDir opts) =
           [path_join [projectDir, ''src'', ''controllers'', ''example.controller.ts''],
            path_join [projectDir, ''src'', ''routes'', ''example.routes.ts'']]
           @ (if database opts \<noteq> DbNone
              then [path_join [projectDir, ''src'', ''models'', ''example.model.ts'']]
              else [])"
    unfolding written_paths_generateBasicFiles path_join4 by simp
  have 2: "\<forall>p \<in> set (written_paths (generateBasicFiles projectDir opts)). suffix ''.ts'' p"
    unfolding written_paths_generateBasicFiles
    using ts [of projectDir "''/src/controllers/example.controller''"]
      ts [of projectDir "''/src/routes/example.routes''"]
      ts [of projectDir "''/src/models/example.model''"]
    by simp
  have 3: "written_paths (generateIndexFile projectDir opts) =
           [path_join [projectDir, ''src'',
              ''index'' @ (if language opts = Typescript then ''.ts'' else ''.js'')]]"
    unfolding written_paths_generateIndexFile path_join3 by simp
  have 4: "\<forall>p \<in> set (written_paths (generateIndexFile projectDir opts)).
            suffix ''.ts'' p \<longleftrightarrow> language opts = Typescript"
    unfolding written_paths_generateIndexFile
    using ts [of projectDir "''/src/index''"] js [of projectDir]
    by simp
  have 5: "set (generateIndexFile projectDir opts) \<union> set (generateBasicFiles projectDir opts)
           \<subseteq> set (generateProject projectDir opts)"
    by (auto simp: generateProject_def copyTemplateFiles_def)
  from 1 2 3 4 5 show ?thesis by (intro conjI)
qed

theorem stubs_written_as_ts_witness:
  "isConsistent demo_js \<and> language demo_js = Javascript \<and>
   written_paths (generateBasicFiles ''/tmp/demo'' demo_js) =
     [''/tmp/demo/src/controllers/example.controller.ts'',
      ''/tmp/demo/src/routes/example.routes.ts'',
      ''/tmp/demo/src/models/example.model.ts''] \<and>
   written_paths (generateIndexFile ''/tmp/demo'' demo_js) = [''/tmp/demo/src/index.js'']"
proof -
  have c: "isConsistent demo_js"
    by (simp add: isConsistent_def valid_name_char_def demo_js_def)
  from stubs_written_as_ts [OF c, of "''/tmp/demo''"] c
  show ?thesis by (simp add: path_join_def demo_js_def)
qed

text \<open>
  C10. For every consistent configuration whose database is mongodb, the fallback
  connection string of the \<open>mongoose.connect\<close> call in the entry point and the value of
  MONGODB_URI in the environment file are the same text, \<open>mongodb://localhost:27017/\<close>
  followed by the project name; both files are among those that a run writes.
\<close>

theorem connect_fallback_matches_env:
  assumes "isConsistent opts" and "database opts = Mongodb"
  shows "connect_fallback (indexContent opts) =
           Some (''mongodb://localhost:27017/'' @ name opts) \<and>
         env_value ''MONGODB_URI'' (join nl (envContent opts)) =
           Some (''mongodb://localhost:27017/'' @ name opts) \<and>
         (\<exists>p. WriteFile p (indexContent opts) \<in> set (generateProject projectDir opts)) \<and>
         WriteFile (path_join [projectDir, ''.env'']) (join nl (envContent opts))
           \<in> set (generateProject projectDir opts)"
proof -
  from assms(1) have nm: "list_all valid_name_char (name opts)"
    by (simp add: isConsistent_def)
  have 1: "connect_fallback (indexContent opts) =
           Some (''mongodb://localhost:27017/'' @ name opts)"
    by (rule connect_fallback_found) (rule indexContent_connect_line [OF nm assms(2)])
  have ls: "split_lines (join nl (envContent opts)) = envContent opts"
    by (rule envContent_lines [OF nm])
  have 2: "env_value ''MONGODB_URI'' (join nl (envContent opts)) =
           Some (''mongodb://localhost:27017/'' @ name opts)"
  proof -
    have "find (prefix (''MONGODB_URI'' @ ''='')) (envContent opts) =
        Some (''MONGODB_URI=mongodb://localhost:27017/'' @ name opts)"
      unfolding envContent_flat using assms(2) by simp
    then show ?thesis
      unfolding env_value_def ls by simp
  qed
  have 3: "\<exists>p. WriteFile p (indexContent opts) \<in> set (generateProject projectDir opts)"
    by (auto simp: generateProject_def copyTemplateFiles_def generateIndexFile_def Let_def)
  have 4: "WriteFile (path_join [projectDir, ''.env'']) (join nl (envContent opts))
           \<in> set (generateProject projectDir opts)"
    by (simp add: generateProject_def generateEnvFile_def)
  from 1 2 3 4 show ?thesis by (intro conjI)
qed

theorem connect_fallback_matches_env_witness:
  "isConsistent demo_oauth \<and> database demo_oauth = Mongodb \<and>
   connect_fallback (indexContent demo_oauth) = Some ''mongodb://localhost:27017/demo'' \<and>
   env_value ''MONGODB_URI'' (join nl (envContent demo_oauth)) =
     Some ''mongodb://localhost:27017/demo''"
proof -
  have c: "isConsistent demo_oauth"
    by (simp add: isConsistent_def valid_name_char_def demo_oauth_def)
  have d: "database demo_oauth = Mongodb"
    by (simp add: demo_oauth_def)
  have n: "name demo_oauth = ''demo''"
    by (simp add: demo_oauth_def)
  from connect_fallback_matches_env [OF c d, of "''/tmp/demo''"] c d
  show ?thesis unfolding n by simp
qed

end
